theory Spec2Isabelle
  imports Main
begin

unbundle bit_operations_syntax

section \<open>Permissions and roles (app/models.py)\<close>

text \<open>
  The class \<open>Permission\<close> holds five bit constants. Python integers are unbounded, so
  the masks are \<open>int\<close> and \<open>&\<close>, \<open>|\<close> are the bitwise operations of \<open>int\<close>.
\<close>

definition FOLLOW :: int where
  "FOLLOW = 0x01"

definition COMMENT :: int where
  "COMMENT = 0x02"

definition WRITE_ARTICLES :: int where
  "WRITE_ARTICLES = 0x04"

definition MODERATE_COMMENTS :: int where
  "MODERATE_COMMENTS = 0x08"

definition ADMINISTER :: int where
  "ADMINISTER = 0x80"

text \<open>The masks that the class \<open>Permission\<close> defines, in source order.\<close>

definition defined_masks :: "int list" where
  "defined_masks = [FOLLOW, COMMENT, WRITE_ARTICLES, MODERATE_COMMENTS, ADMINISTER]"

text \<open>
  A row of the table \<open>roles\<close>. The columns \<open>id\<close> and \<open>default\<close> carry a suffix
  because HOL already has constants of these names.
\<close>

record Role =
  id_role :: int
  name :: string
  default_role :: bool
  permissions :: int

text \<open>
  The dictionary literal \<open>roles\<close> of \<open>Role.insert_roles\<close>, as an association list in
  the order of the literal: role name, permission mask, default flag.
\<close>

definition roles :: "(string \<times> int \<times> bool) list" where
  "roles =
     [(''User'', FOLLOW OR COMMENT OR WRITE_ARTICLES, True),
      (''Moderator'', FOLLOW OR COMMENT OR WRITE_ARTICLES OR MODERATE_COMMENTS, False),
      (''Administrator'', 0xff, False)]"

text \<open>The next value of the autoincrement primary key of a table whose keys are \<open>ks\<close>.\<close>

definition next_id :: "int list \<Rightarrow> int" where
  "next_id ks = fold max ks 0 + 1"

text \<open>
  One iteration of the loop of \<open>insert_roles\<close>: look the role up by name
  (\<open>Role.query.filter_by(name=r).first()\<close>), create it when it is missing, set its mask
  and its default flag, and add it to the session. An existing row is updated in place,
  found by its primary key; a new row is appended with a fresh key.
\<close>

definition insert_role :: "string \<times> int \<times> bool \<Rightarrow> Role list \<Rightarrow> Role list" where
  "insert_role e tbl =
     (case e of (r, p, d) \<Rightarrow>
        (case find (\<lambda>x. name x = r) tbl of
           None \<Rightarrow>
             tbl @ [\<lparr>id_role = next_id (map id_role tbl), name = r,
                     default_role = d, permissions = p\<rparr>]
         | Some role \<Rightarrow>
             map (\<lambda>x. if id_role x = id_role role
                       then x\<lparr>permissions := p, default_role := d\<rparr> else x) tbl))"

definition insert_roles :: "Role list \<Rightarrow> Role list" where
  "insert_roles tbl = fold insert_role roles tbl"

text \<open>
  The constraints of the table \<open>roles\<close>: \<open>id\<close> is the primary key and \<open>name\<close> is
  declared \<open>unique=True\<close>. The third condition of \<open>Role_table_ok\<close> says where rows come
  from: \<open>insert_roles\<close> holds the only call of \<open>Role(...)\<close> in the program, so every row
  carries a name of the dictionary \<open>roles\<close>. Masks, default flags, keys and the order of
  the rows are arbitrary.
\<close>

definition keys_ok :: "Role list \<Rightarrow> bool" where
  "keys_ok tbl = (distinct (map id_role tbl) \<and> distinct (map name tbl))"

definition Role_table_ok :: "Role list \<Rightarrow> bool" where
  "Role_table_ok tbl = (keys_ok tbl \<and> list_all (\<lambda>r. name r \<in> set (map fst roles)) tbl)"

section \<open>Users\<close>

text \<open>
  A persisted row of the table \<open>users\<close>, with the columns that the methods below read or
  write. The relationship \<open>role\<close> is the referenced role, or \<open>None\<close>. The field
  \<open>avatar_has\<close> is the plain instance attribute that \<open>change_email\<close> assigns; it is not
  a column.
\<close>

record User =
  id_user :: int
  email :: "string option"
  username :: "string option"
  role :: "Role option"
  password_hash :: "string option"
  confirmed :: bool
  avatar_hash :: "string option"
  avatar_has :: "string option"

text \<open>\<open>User.can\<close>: the user has a role and the role's mask contains every requested bit.\<close>

definition can :: "User \<Rightarrow> int \<Rightarrow> bool" where
  "can self perms =
     (case role self of
        None \<Rightarrow> False
      | Some r \<Rightarrow> (permissions r AND perms) = perms)"

definition is_administrator :: "User \<Rightarrow> bool" where
  "is_administrator self = can self ADMINISTER"

text \<open>The two methods of \<open>AnonymousUser\<close>; both return \<open>False\<close> whatever they are given.\<close>

definition AnonymousUser_can :: "int \<Rightarrow> bool" where
  "AnonymousUser_can perms = False"

definition AnonymousUser_is_administrator :: bool where
  "AnonymousUser_is_administrator = False"

section \<open>Signed, expiring tokens\<close>

text \<open>
  Modelled from the spec: \<open>TimedJSONWebSignatureSerializer\<close> of the library itsdangerous,
  which is not part of the repository. A token is a signed, expiring payload: \<open>dumps\<close>
  signs a dictionary with the secret key and stamps it with the expiry time (issue time
  plus \<open>expires_in\<close>); \<open>loads\<close> verifies the signature and the expiry and returns the
  dictionary, or raises. Times are seconds. The signature is represented by the key that
  made it, so a tampered or forged token is one whose signature is not that of the
  application's secret key.
\<close>

datatype json = JInt int | JStr string

record token =
  header_exp :: int
  payload :: "(string \<times> json) list"
  signed_with :: string

datatype error = BadSignature | SignatureExpired | IntegrityError | AttributeError

definition dumps :: "string \<Rightarrow> int \<Rightarrow> int \<Rightarrow> (string \<times> json) list \<Rightarrow> token" where
  "dumps secret_key expires_in now data =
     \<lparr>header_exp = now + expires_in, payload = data, signed_with = secret_key\<rparr>"

definition loads :: "string \<Rightarrow> int \<Rightarrow> token \<Rightarrow> error + (string \<times> json) list" where
  "loads secret_key now t =
     (if signed_with t \<noteq> secret_key then Inl BadSignature
      else if header_exp t < now then Inl SignatureExpired
      else Inr (payload t))"

text \<open>\<open>data.get(k)\<close> on the decoded dictionary: \<open>None\<close> when the key is missing.\<close>

definition get :: "(string \<times> json) list \<Rightarrow> string \<Rightarrow> json option" where
  "get data k = map_of data k"

text \<open>
  The token methods of \<open>User\<close>. Each takes the configured \<open>SECRET_KEY\<close> and the current
  time, which the source reads from the application and the clock. A method that
  mutates \<open>self\<close> returns the updated user beside its result; \<open>db.session.add(self)\<close>
  only registers the object and changes no field.
\<close>

definition generate_confirmation_token :: "string \<Rightarrow> int \<Rightarrow> User \<Rightarrow> int \<Rightarrow> token" where
  "generate_confirmation_token secret_key now self expiration =
     dumps secret_key expiration now [(''confirm'', JInt (id_user self))]"

definition confirm :: "string \<Rightarrow> int \<Rightarrow> User \<Rightarrow> token \<Rightarrow> bool \<times> User" where
  "confirm secret_key now self tok =
     (case loads secret_key now tok of
        Inl e \<Rightarrow> (False, self)
      | Inr data \<Rightarrow>
          if get data ''confirm'' \<noteq> Some (JInt (id_user self)) then (False, self)
          else (True, self\<lparr>confirmed := True\<rparr>))"

definition generate_reset_token :: "string \<Rightarrow> int \<Rightarrow> User \<Rightarrow> int \<Rightarrow> token" where
  "generate_reset_token secret_key now self expiration =
     dumps secret_key expiration now [(''rest'', JInt (id_user self))]"

text \<open>
  The setter of \<open>password\<close> stores \<open>generate_password_hash(password)\<close>; the salted hash
  function of werkzeug is the parameter \<open>generate_password_hash\<close>.
\<close>

definition reset_password ::
  "(string \<Rightarrow> string) \<Rightarrow> string \<Rightarrow> int \<Rightarrow> User \<Rightarrow> token \<Rightarrow> string \<Rightarrow> bool \<times> User" where
  "reset_password generate_password_hash secret_key now self tok new_password =
     (case loads secret_key now tok of
        Inl e \<Rightarrow> (False, self)
      | Inr data \<Rightarrow>
          if get data ''reset'' \<noteq> Some (JInt (id_user self)) then (False, self)
          else (True, self\<lparr>password_hash := Some (generate_password_hash new_password)\<rparr>))"

definition generate_email_change_token ::
  "string \<Rightarrow> int \<Rightarrow> User \<Rightarrow> string \<Rightarrow> int \<Rightarrow> token" where
  "generate_email_change_token secret_key now self new_email expiration =
     dumps secret_key expiration now
       [(''change_email'', JInt (id_user self)), (''new_email'', JStr new_email)]"

text \<open>
  \<open>change_email\<close> queries the table \<open>users\<close> for the new address and hashes it with
  \<open>hashlib.md5\<close>, the parameter \<open>md5\<close>. The digest is assigned to \<open>avatar_has\<close>.
  \<open>generate_email_change_token\<close> always stores a string under \<open>new_email\<close>; a decoded
  value that is not a string has no \<open>encode\<close> method, and the method does not return
  \<open>True\<close> for it: the model gives the \<open>AttributeError\<close>.
\<close>

definition change_email ::
  "(string \<Rightarrow> string) \<Rightarrow> string \<Rightarrow> int \<Rightarrow> User list \<Rightarrow> User \<Rightarrow> token \<Rightarrow> error + bool \<times> User" where
  "change_email md5 secret_key now users self tok =
     (case loads secret_key now tok of
        Inl e \<Rightarrow> Inr (False, self)
      | Inr data \<Rightarrow>
          if get data ''change_email'' \<noteq> Some (JInt (id_user self)) then Inr (False, self)
          else
            (case get data ''new_email'' of
               None \<Rightarrow> Inr (False, self)
             | Some (JInt n) \<Rightarrow> Inl AttributeError
             | Some (JStr new_email) \<Rightarrow>
                 if find (\<lambda>u. email u = Some new_email) users \<noteq> None then Inr (False, self)
                 else Inr (True, self\<lparr>email := Some new_email,
                                      avatar_has := Some (md5 new_email)\<rparr>)))"

section \<open>The follow graph\<close>

text \<open>
  A row of the table \<open>follows\<close>. The pair \<open>(follower_id, followed_id)\<close> is the primary
  key. The table is the list of its rows; a write of the session is applied to it at
  once, as a query would see it after the flush, and an insert whose primary key is
  already there is the database's \<open>IntegrityError\<close>.
\<close>

record Follow =
  follower_id :: int
  followed_id :: int
  timestamp :: int

definition same_key :: "Follow \<Rightarrow> Follow \<Rightarrow> bool" where
  "same_key f g = (follower_id f = follower_id g \<and> followed_id f = followed_id g)"

definition session_add :: "Follow \<Rightarrow> Follow list \<Rightarrow> error + Follow list" where
  "session_add f tbl = (if list_ex (same_key f) tbl then Inl IntegrityError else Inr (tbl @ [f]))"


text \<open>The edge set contains the directed edge from user \<open>a\<close> to user \<open>b\<close> (given by id).\<close>

definition has_edge :: "int \<Rightarrow> int \<Rightarrow> Follow list \<Rightarrow> bool" where
  "has_edge a b tbl = list_ex (\<lambda>f. follower_id f = a \<and> followed_id f = b) tbl"

text \<open>
  The dynamic relationships of \<open>User\<close> are queries on \<open>follows\<close>: \<open>followed\<close> joins on
  \<open>Follow.follower_id\<close>, \<open>followers\<close> on \<open>Follow.followed_id\<close>. \<open>filter_by\<close> narrows a
  query by one column, \<open>first\<close> takes its first row or \<open>None\<close>.
\<close>

definition followed :: "User \<Rightarrow> Follow list \<Rightarrow> Follow list" where
  "followed self tbl = filter (\<lambda>f. follower_id f = id_user self) tbl"

definition followers :: "User \<Rightarrow> Follow list \<Rightarrow> Follow list" where
  "followers self tbl = filter (\<lambda>f. followed_id f = id_user self) tbl"

definition filter_by :: "(Follow \<Rightarrow> int) \<Rightarrow> int \<Rightarrow> Follow list \<Rightarrow> Follow list" where
  "filter_by column v q = filter (\<lambda>f. column f = v) q"

definition first :: "'a list \<Rightarrow> 'a option" where
  "first q = (case q of [] \<Rightarrow> None | x # rest \<Rightarrow> Some x)"

definition is_following :: "User \<Rightarrow> User \<Rightarrow> Follow list \<Rightarrow> bool" where
  "is_following self user tbl =
     (first (filter_by follower_id (id_user user) (followed self tbl)) \<noteq> None)"

definition is_followed_by :: "User \<Rightarrow> User \<Rightarrow> Follow list \<Rightarrow> bool" where
  "is_followed_by self user tbl =
     (first (filter_by follower_id (id_user user) (followers self tbl)) \<noteq> None)"

text \<open>\<open>follow\<close> takes the current time, the column default of \<open>timestamp\<close>.\<close>

definition follow :: "User \<Rightarrow> User \<Rightarrow> int \<Rightarrow> Follow list \<Rightarrow> error + Follow list" where
  "follow self user now tbl =
     (if \<not> is_following self user tbl
      then session_add \<lparr>follower_id = id_user self, followed_id = id_user user,
                        timestamp = now\<rparr> tbl
      else Inr tbl)"


section \<open>Constructing a user\<close>

text \<open>
  The keyword arguments of \<open>User(...)\<close> that the constructor looks at; a missing
  argument is \<open>None\<close>. The base constructor assigns each given argument to its
  attribute, \<open>password\<close> through its setter.
\<close>

record kwargs =
  kw_email :: "string option"
  kw_username :: "string option"
  kw_password :: "string option"
  kw_role :: "Role option"
  kw_confirmed :: "bool option"
  kw_avatar_hash :: "string option"

text \<open>
  What \<open>User(...)\<close> returns is an object, not a row: it has no primary key, and the
  \<open>Follow\<close> objects appended to its relationship \<open>followed\<close> are not rows of \<open>follows\<close>
  either. A \<open>Follow\<close> object refers to its two users as objects; the user under
  construction is \<open>New_user\<close>. \<open>obj_confirmed\<close> is \<open>None\<close> until the column default
  applies at the insert.
\<close>

datatype user_ref = New_user | Persisted_user int

record Follow_object =
  follower_obj :: user_ref
  followed_obj :: user_ref

record User_object =
  obj_id :: "int option"
  obj_email :: "string option"
  obj_username :: "string option"
  obj_role :: "Role option"
  obj_password_hash :: "string option"
  obj_confirmed :: "bool option"
  obj_avatar_hash :: "string option"
  obj_followed :: "Follow_object list"

text \<open>
  \<open>User.__init__\<close>. The parameters are the hash functions, the configured
  \<open>FLASKY_ADMIN\<close> (\<open>None\<close> when unset) and the table \<open>roles\<close>. The constructor picks the
  role, fills \<open>avatar_hash\<close>, and appends \<open>Follow(followed=self)\<close> to \<open>self.followed\<close>,
  which makes the object the follower as well. It writes nothing to the database.
\<close>

definition User_init ::
  "(string \<Rightarrow> string) \<Rightarrow> (string \<Rightarrow> string) \<Rightarrow> string option \<Rightarrow> Role list \<Rightarrow> kwargs \<Rightarrow>
   User_object" where
  "User_init generate_password_hash md5 FLASKY_ADMIN role_tbl kw =
     (let role0 = kw_role kw;
          role1 = (if role0 = None \<and> kw_email kw = FLASKY_ADMIN
                   then find (\<lambda>r. permissions r = 0xff) role_tbl else role0);
          role2 = (if role0 = None \<and> role1 = None
                   then find default_role role_tbl else role1);
          avatar = (case (kw_email kw, kw_avatar_hash kw) of
                      (Some e, None) \<Rightarrow> Some (md5 e)
                    | (e, h) \<Rightarrow> h)
      in \<lparr>obj_id = None, obj_email = kw_email kw, obj_username = kw_username kw,
           obj_role = role2,
           obj_password_hash = map_option generate_password_hash (kw_password kw),
           obj_confirmed = kw_confirmed kw, obj_avatar_hash = avatar,
           obj_followed = [\<lparr>follower_obj = New_user, followed_obj = New_user\<rparr>]\<rparr>)"

text \<open>
  \<open>is_following\<close> compares \<open>follower_id\<close> with \<open>self.id\<close>, through the relationship
  \<open>followed\<close>, and with \<open>user.id\<close>, the argument of \<open>filter_by\<close>, which is read
  before the query runs. On objects these may be \<open>None\<close>, and a key column of a row
  never equals \<open>None\<close>. This is the query of \<open>is_following\<close> with the ids as the
  objects have them.
\<close>

definition is_following_object :: "User_object \<Rightarrow> User_object \<Rightarrow> Follow list \<Rightarrow> bool" where
  "is_following_object self user tbl =
     (first (filter (\<lambda>f. Some (follower_id f) = obj_id user)
               (filter (\<lambda>f. Some (follower_id f) = obj_id self) tbl)) \<noteq> None)"

text \<open>
  The caller persists the object with \<open>db.session.add(user)\<close> and
  \<open>db.session.commit()\<close> (app/auth/views.py, and every test). For a new object the
  database gives the row of \<open>users\<close> its primary key, the parameter \<open>new_id\<close>; each
  appended \<open>Follow\<close> becomes a row of \<open>follows\<close> with the keys of its two users and the
  current time, the column default of \<open>timestamp\<close>.
\<close>

fun resolve :: "int \<Rightarrow> user_ref \<Rightarrow> int" where
  "resolve k New_user = k"
| "resolve k (Persisted_user i) = i"

fun flush_followed :: "int \<Rightarrow> int \<Rightarrow> Follow_object list \<Rightarrow> Follow list \<Rightarrow> error + Follow list" where
  "flush_followed k now [] tbl = Inr tbl"
| "flush_followed k now (f # fs) tbl =
     (case session_add \<lparr>follower_id = resolve k (follower_obj f),
                        followed_id = resolve k (followed_obj f), timestamp = now\<rparr> tbl of
        Inl e \<Rightarrow> Inl e
      | Inr tbl' \<Rightarrow> flush_followed k now fs tbl')"

definition session_commit ::
  "int \<Rightarrow> int \<Rightarrow> User_object \<Rightarrow> Follow list \<Rightarrow> error + User \<times> Follow list" where
  "session_commit new_id now obj tbl =
     (let k = (case obj_id obj of None \<Rightarrow> new_id | Some i \<Rightarrow> i)
      in case flush_followed k now (obj_followed obj) tbl of
           Inl e \<Rightarrow> Inl e
         | Inr tbl' \<Rightarrow>
             Inr (\<lparr>id_user = k, email = obj_email obj, username = obj_username obj,
                   role = obj_role obj, password_hash = obj_password_hash obj,
                   confirmed = (case obj_confirmed obj of None \<Rightarrow> False | Some c \<Rightarrow> c),
                   avatar_hash = obj_avatar_hash obj, avatar_has = None\<rparr>, tbl'))"

section \<open>Rendering the body of posts and comments\<close>

text \<open>
  \<open>Post.on_changed_body\<close> and \<open>Comment.on_changed_body\<close> are listeners of the \<open>set\<close>
  event of \<open>body\<close>. Both store \<open>linkify(clean(markdown(value), tags, strip=True))\<close> in
  \<open>body_html\<close>; the functions of the libraries markdown and bleach are parameters.
\<close>

record Post =
  body :: "string option"
  body_html :: "string option"

definition Post_allowed_tags :: "string list" where
  "Post_allowed_tags =
     [''a'', ''abbr'', ''acronym'', ''b'', ''blockquote'',
      ''code'', ''em'', ''i'', ''li'', ''ol'', ''pre'', ''strong'', ''ul'',
      ''h1'', ''h2'', ''h3'', ''p'']"

definition Comment_allowed_tags :: "string list" where
  "Comment_allowed_tags =
     [''a'', ''abbr'', ''acronym'', ''b'', ''code'', ''em'',
      ''i'', ''strong'']"

definition Post_on_changed_body ::
  "(string \<Rightarrow> string) \<Rightarrow> (string \<Rightarrow> string list \<Rightarrow> bool \<Rightarrow> string) \<Rightarrow> (string \<Rightarrow> string) \<Rightarrow>
   Post \<Rightarrow> string \<Rightarrow> Post" where
  "Post_on_changed_body markdown clean linkify target v =
     target\<lparr>body_html := Some (linkify (clean (markdown v) Post_allowed_tags True))\<rparr>"

definition Comment_on_changed_body ::
  "(string \<Rightarrow> string) \<Rightarrow> (string \<Rightarrow> string list \<Rightarrow> bool \<Rightarrow> string) \<Rightarrow> (string \<Rightarrow> string) \<Rightarrow>
   Post \<Rightarrow> string \<Rightarrow> Post" where
  "Comment_on_changed_body markdown clean linkify target v =
     target\<lparr>body_html := Some (linkify (clean (markdown v) Comment_allowed_tags True))\<rparr>"

section \<open>Example data\<close>

text \<open>
  The users of the test cases in tests/test_user_model.py, with the role \<open>User\<close> as
  \<open>insert_roles\<close> provisions it, a table \<open>roles\<close> with two rows of older masks and
  the administrator role that \<open>insert_roles\<close> makes of it, the default secret key of
  config.py, and stand-ins for the hash functions that keep their argument readable.
\<close>

definition User_role :: Role where
  "User_role = \<lparr>id_role = 1, name = ''User'', default_role = True, permissions = 0x07\<rparr>"

definition john :: User where
  "john = \<lparr>id_user = 1, email = Some ''john@example.com'', username = Some ''john'',
           role = Some User_role, password_hash = Some ''hash(cat)'', confirmed = False,
           avatar_hash = Some ''md5(john@example.com)'', avatar_has = None\<rparr>"

definition susan :: User where
  "susan = \<lparr>id_user = 2, email = Some ''susan@example.org'', username = Some ''susan'',
            role = Some User_role, password_hash = Some ''hash(dog)'', confirmed = False,
            avatar_hash = Some ''md5(susan@example.org)'', avatar_has = None\<rparr>"

definition stale_roles :: "Role list" where
  "stale_roles =
     [\<lparr>id_role = 7, name = ''Administrator'', default_role = False, permissions = 0x80\<rparr>,
      \<lparr>id_role = 2, name = ''User'', default_role = True, permissions = 0x03\<rparr>]"

definition Administrator_role :: Role where
  "Administrator_role =
     \<lparr>id_role = 7, name = ''Administrator'', default_role = False, permissions = 0xff\<rparr>"

definition root :: User where
  "root = \<lparr>id_user = 4, email = Some ''root@example.com'', username = Some ''root'',
           role = Some Administrator_role, password_hash = None, confirmed = True,
           avatar_hash = None, avatar_has = None\<rparr>"

definition susan_kwargs :: kwargs where
  "susan_kwargs = \<lparr>kw_email = Some ''susan@example.org'', kw_username = Some ''susan'',
                   kw_password = Some ''dog'', kw_role = None, kw_confirmed = None,
                   kw_avatar_hash = None\<rparr>"

definition SECRET_KEY :: string where
  "SECRET_KEY = ''hard to guess string''"

definition example_hash :: "string \<Rightarrow> string" where
  "example_hash s = ''hash('' @ s @ '')''"

definition example_md5 :: "string \<Rightarrow> string" where
  "example_md5 s = ''md5('' @ s @ '')''"

definition edge :: "int \<Rightarrow> int \<Rightarrow> int \<Rightarrow> Follow" where
  "edge a b t = \<lparr>follower_id = a, followed_id = b, timestamp = t\<rparr>"

section \<open>Permission checks\<close>

lemmas mask_defs =
  FOLLOW_def COMMENT_def WRITE_ARTICLES_def MODERATE_COMMENTS_def ADMINISTER_def

lemmas example_defs =
  john_def susan_def User_role_def example_hash_def example_md5_def edge_def

text \<open>
  C1. For a user with a role, \<open>can\<close> is exactly the bitwise superset test
  \<open>(role.permissions & m) == m\<close>; the anonymous principal satisfies no mask and is not
  an administrator.
\<close>

theorem can_superset_test:
  "(role u = Some r \<longrightarrow> (can u m \<longleftrightarrow> (permissions r AND m) = m))
   \<and> \<not> AnonymousUser_can m
   \<and> \<not> AnonymousUser_is_administrator"
  by (simp add: can_def AnonymousUser_can_def AnonymousUser_is_administrator_def)

text \<open>
  At the user john, whose mask is \<open>0x07\<close>: the request \<open>0x04\<close> is granted although the
  masks differ, and the request \<open>0x08\<close> is refused.
\<close>

theorem can_superset_test_witness:
  "role john = Some User_role
   \<and> can john WRITE_ARTICLES
   \<and> permissions User_role \<noteq> WRITE_ARTICLES
   \<and> \<not> can john MODERATE_COMMENTS"
  using can_superset_test [of john User_role WRITE_ARTICLES]
    can_superset_test [of john User_role MODERATE_COMMENTS]
  by (simp add: john_def User_role_def mask_defs)

section \<open>Provisioning the roles\<close>

text \<open>Provisioning an empty table gives the three roles of the source.\<close>

lemma insert_roles_empty:
  "insert_roles [] =
     [\<lparr>id_role = 1, name = ''User'', default_role = True, permissions = 0x07\<rparr>,
      \<lparr>id_role = 2, name = ''Moderator'', default_role = False, permissions = 0x0f\<rparr>,
      \<lparr>id_role = 3, name = ''Administrator'', default_role = False, permissions = 0xff\<rparr>]"
  by (simp add: insert_roles_def roles_def insert_role_def next_id_def mask_defs)

text \<open>The key of a new row is above every key of the table.\<close>

lemma fold_max_ge: "a \<le> fold max ks (a::int)"
  by (induction ks arbitrary: a) (auto intro: order_trans [OF max.cobounded2])

lemma fold_max_upper: "k \<in> set ks \<Longrightarrow> k \<le> fold max ks (a::int)"
proof (induction ks arbitrary: a)
  case Nil
  then show ?case by simp
next
  case (Cons x xs)
  show ?case
  proof (cases "k = x")
    case True
    have "x \<le> max x a" by simp
    also have "\<dots> \<le> fold max xs (max x a)" by (rule fold_max_ge)
    finally show ?thesis using True by simp
  next
    case False
    with Cons.prems have "k \<in> set xs" by simp
    then show ?thesis using Cons.IH by simp
  qed
qed

lemma next_id_fresh: "next_id ks \<notin> set ks"
proof
  assume "next_id ks \<in> set ks"
  then have "next_id ks \<le> fold max ks 0" by (rule fold_max_upper)
  then show False by (simp add: next_id_def)
qed

text \<open>One iteration: what the lookup by name finds, and what the update leaves alone.\<close>

lemma find_name_in: "find (\<lambda>x. name x = n) tbl = Some ro \<Longrightarrow> ro \<in> set tbl \<and> name ro = n"
  by (induction tbl) (auto split: if_splits)

lemma find_name_None: "find (\<lambda>x. name x = n) tbl = None \<Longrightarrow> n \<notin> set (map name tbl)"
  by (induction tbl) (auto split: if_splits)

lemma update_keeps_columns:
  "id_role \<circ> (\<lambda>x. if id_role x = k then x\<lparr>permissions := p, default_role := d\<rparr> else x)
     = id_role"
  "name \<circ> (\<lambda>x. if id_role x = k then x\<lparr>permissions := p, default_role := d\<rparr> else x)
     = name"
  by (rule ext, simp)+

lemma insert_role_names:
  "set (map name (insert_role (n, p, d) tbl)) = insert n (set (map name tbl))"
proof (cases "find (\<lambda>x. name x = n) tbl")
  case None
  then show ?thesis by (simp add: insert_role_def)
next
  case (Some ro)
  from find_name_in [OF Some] have "n \<in> set (map name tbl)" by auto
  with Some show ?thesis
    by (simp add: insert_role_def update_keeps_columns insert_absorb)
qed

lemma insert_role_keys_ok:
  assumes "keys_ok tbl"
  shows "keys_ok (insert_role (n, p, d) tbl)"
proof (cases "find (\<lambda>x. name x = n) tbl")
  case None
  then show ?thesis
    using assms next_id_fresh [of "map id_role tbl"] find_name_None [OF None]
    by (simp add: insert_role_def keys_ok_def)
next
  case (Some ro)
  with assms show ?thesis
    by (simp add: insert_role_def keys_ok_def update_keeps_columns)
qed

text \<open>After one iteration the row of that name has the mask of the dictionary.\<close>

lemma insert_role_sets_mask:
  assumes "keys_ok tbl" and "r \<in> set (insert_role (n, p, d) tbl)" and "name r = n"
  shows "permissions r = p"
proof (cases "find (\<lambda>x. name x = n) tbl")
  case None
  from assms(2) None have "r \<in> set tbl
      \<or> r = \<lparr>id_role = next_id (map id_role tbl), name = n, default_role = d, permissions = p\<rparr>"
    by (auto simp: insert_role_def)
  moreover from find_name_None [OF None] assms(3) have "r \<notin> set tbl" by auto
  ultimately have
    "r = \<lparr>id_role = next_id (map id_role tbl), name = n, default_role = d, permissions = p\<rparr>"
    by simp
  then show ?thesis by simp
next
  case (Some ro)
  from find_name_in [OF Some] have ro: "ro \<in> set tbl" "name ro = n" by simp_all
  from assms(2) Some obtain x where x: "x \<in> set tbl"
    and r: "r = (if id_role x = id_role ro then x\<lparr>permissions := p, default_role := d\<rparr> else x)"
    by (auto simp: insert_role_def)
  from r assms(3) have "name x = n" by (simp split: if_splits)
  with x ro assms(1) have "x = ro"
    by (auto simp: keys_ok_def distinct_map dest: inj_onD)
  with r show ?thesis by simp
qed

text \<open>A row of another name keeps the mask it had.\<close>

lemma insert_role_keeps_mask:
  assumes "keys_ok tbl" and "r \<in> set (insert_role (n, p, d) tbl)" and "name r \<noteq> n"
  shows "\<exists>x \<in> set tbl. name x = name r \<and> permissions x = permissions r"
proof (cases "find (\<lambda>x. name x = n) tbl")
  case None
  then show ?thesis
    using assms by (auto simp: insert_role_def)
next
  case (Some ro)
  from find_name_in [OF Some] have ro: "ro \<in> set tbl" "name ro = n" by simp_all
  from assms(2) Some obtain x where x: "x \<in> set tbl"
    and r: "r = (if id_role x = id_role ro then x\<lparr>permissions := p, default_role := d\<rparr> else x)"
    by (auto simp: insert_role_def)
  from r assms(3) have nx: "name x \<noteq> n" by (simp split: if_splits)
  have "id_role x \<noteq> id_role ro"
  proof
    assume "id_role x = id_role ro"
    with x ro assms(1) have "x = ro"
      by (auto simp: keys_ok_def distinct_map dest: inj_onD)
    with nx ro show False by simp
  qed
  with r x show ?thesis by auto
qed

lemma insert_roles_steps:
  "insert_roles tbl =
     insert_role (''Administrator'', 0xff, False)
       (insert_role (''Moderator'', 0x0f, False)
          (insert_role (''User'', 0x07, True) tbl))"
  by (simp add: insert_roles_def roles_def mask_defs)

text \<open>
  Whatever masks, keys and order the table had, after \<open>insert_roles\<close> every row has one
  of the three masks of the dictionary.
\<close>

lemma insert_roles_masks:
  assumes "Role_table_ok tbl" and "r \<in> set (insert_roles tbl)"
  shows "permissions r = 0x07 \<or> permissions r = 0x0f \<or> permissions r = 0xff"
proof -
  let ?t1 = "insert_role (''User'', 0x07, True) tbl"
  let ?t2 = "insert_role (''Moderator'', 0x0f, False) ?t1"
  let ?t3 = "insert_role (''Administrator'', 0xff, False) ?t2"
  from assms(1) have k0: "keys_ok tbl" by (simp add: Role_table_ok_def)
  then have k1: "keys_ok ?t1" by (rule insert_role_keys_ok)
  then have k2: "keys_ok ?t2" by (rule insert_role_keys_ok)
  from assms(1) have "set (map name tbl) \<subseteq> {''User'', ''Moderator'', ''Administrator''}"
    by (auto simp: Role_table_ok_def roles_def list_all_iff)
  then have "set (map name ?t3) \<subseteq> {''User'', ''Moderator'', ''Administrator''}"
    unfolding insert_role_names by blast
  moreover from assms(2) have r3: "r \<in> set ?t3" by (simp add: insert_roles_steps)
  ultimately have "name r \<in> {''User'', ''Moderator'', ''Administrator''}" by auto
  then consider (A) "name r = ''Administrator''" | (M) "name r = ''Moderator''"
    | (U) "name r = ''User''" by blast
  then show ?thesis
  proof cases
    case A
    from insert_role_sets_mask [OF k2 r3 A] show ?thesis by simp
  next
    case M
    then have "name r \<noteq> ''Administrator''" by simp
    from insert_role_keeps_mask [OF k2 r3 this] obtain x where
      x: "x \<in> set ?t2" "name x = name r" "permissions x = permissions r" by blast
    with M have "name x = ''Moderator''" by simp
    from insert_role_sets_mask [OF k1 x(1) this] x(3) show ?thesis by simp
  next
    case U
    then have "name r \<noteq> ''Administrator''" by simp
    from insert_role_keeps_mask [OF k2 r3 this] obtain x where
      x: "x \<in> set ?t2" "name x = name r" "permissions x = permissions r" by blast
    with U have "name x \<noteq> ''Moderator''" by simp
    from insert_role_keeps_mask [OF k1 x(1) this] obtain y where
      y: "y \<in> set ?t1" "name y = name x" "permissions y = permissions x" by blast
    with x U have "name y = ''User''" by simp
    from insert_role_sets_mask [OF k0 y(1) this] x(3) y(3) show ?thesis by simp
  qed
qed

text \<open>
  C6. For every user whose role, if it has one, is a row of the table \<open>roles\<close> as
  \<open>insert_roles\<close> leaves it: if \<open>can\<close> grants \<open>ADMINISTER\<close>, it grants every mask that
  the class \<open>Permission\<close> defines.
\<close>

theorem administer_implies_all:
  assumes "Role_table_ok tbl" and "set_option (role u) \<subseteq> set (insert_roles tbl)"
    and "can u ADMINISTER" and "m \<in> set defined_masks"
  shows "can u m"
proof -
  from assms(3) obtain r where r: "role u = Some r" and adm: "(permissions r AND 0x80) = 0x80"
    by (auto simp: can_def ADMINISTER_def split: option.splits)
  from r assms(2) have "r \<in> set (insert_roles tbl)" by simp
  from insert_roles_masks [OF assms(1) this] adm have "permissions r = 0xff"
    by auto
  with r assms(4) show ?thesis
    by (auto simp: can_def defined_masks_def mask_defs)
qed

text \<open>
  At a table with an administrator row of key 7 and mask \<open>0x80\<close> and a user row of mask
  \<open>0x03\<close>: \<open>insert_roles\<close> repairs both masks and adds the moderator under key 8, and the
  user root, whose role is the administrator row, can moderate comments.
\<close>

theorem administer_implies_all_witness:
  "Role_table_ok stale_roles
   \<and> insert_roles stale_roles =
       [Administrator_role,
        \<lparr>id_role = 2, name = ''User'', default_role = True, permissions = 0x07\<rparr>,
        \<lparr>id_role = 8, name = ''Moderator'', default_role = False, permissions = 0x0f\<rparr>]
   \<and> set_option (role root) \<subseteq> set (insert_roles stale_roles)
   \<and> can root ADMINISTER
   \<and> MODERATE_COMMENTS \<in> set defined_masks
   \<and> can root MODERATE_COMMENTS"
proof -
  have h1: "Role_table_ok stale_roles"
    by (simp add: Role_table_ok_def keys_ok_def stale_roles_def roles_def)
  have t: "insert_roles stale_roles =
       [Administrator_role,
        \<lparr>id_role = 2, name = ''User'', default_role = True, permissions = 0x07\<rparr>,
        \<lparr>id_role = 8, name = ''Moderator'', default_role = False, permissions = 0x0f\<rparr>]"
    by (simp add: insert_roles_steps insert_role_def stale_roles_def Administrator_role_def
        next_id_def)
  have h2: "set_option (role root) \<subseteq> set (insert_roles stale_roles)"
    by (simp add: t root_def)
  have h3: "can root ADMINISTER"
    by (simp add: can_def root_def Administrator_role_def ADMINISTER_def)
  have h4: "MODERATE_COMMENTS \<in> set defined_masks"
    by (simp add: defined_masks_def)
  show ?thesis
    using h1 t h2 h3 h4 administer_implies_all [OF h1 h2 h3 h4] by simp
qed

section \<open>The follow graph: what the two existence checks compute\<close>

lemma first_filter_None: "first (filter P xs) = None \<longleftrightarrow> \<not> list_ex P xs"
  by (induction xs) (auto simp: first_def)


text \<open>
  \<open>is_followed_by\<close> is the existence of the edge from the other user to this one.
  \<open>is_following\<close> narrows the relationship \<open>followed\<close>, which already fixes
  \<open>follower_id\<close> to this user, by \<open>follower_id\<close> again: it holds exactly when both
  users are the same and that user is the origin of some edge.
\<close>

lemma is_followed_by_edge:
  "is_followed_by a b tbl \<longleftrightarrow> has_edge (id_user b) (id_user a) tbl"
  by (simp add: is_followed_by_def filter_by_def followers_def has_edge_def
      first_filter_None conj_commute)

lemma is_following_same_user:
  "is_following a b tbl \<longleftrightarrow>
     id_user a = id_user b \<and> list_ex (\<lambda>f. follower_id f = id_user a) tbl"
  by (auto simp: is_following_def filter_by_def followed_def first_filter_None list_ex_iff)

text \<open>
  C2. With the single edge from john to susan in the table, the edge set contains the
  edge and \<open>is_following\<close> of john and susan is false, while \<open>is_followed_by\<close> of susan
  and john is true.
\<close>

theorem is_following_misses_edge:
  "has_edge (id_user john) (id_user susan) [edge 1 2 0]
   \<and> \<not> is_following john susan [edge 1 2 0]
   \<and> is_followed_by susan john [edge 1 2 0]"
  by (simp add: example_defs has_edge_def is_following_def is_followed_by_def first_def
      filter_by_def followed_def followers_def)

text \<open>
  C3. The first \<open>follow\<close> of john and susan inserts the edge; the second one, with the
  edge in the table, inserts a row of the same primary key again, which the table
  rejects.
\<close>

theorem follow_twice_integrity_error:
  "follow john susan 0 [edge 1 1 0, edge 2 2 0] = Inr [edge 1 1 0, edge 2 2 0, edge 1 2 0]
   \<and> follow john susan 5 [edge 1 1 0, edge 2 2 0, edge 1 2 0] = Inl IntegrityError"
  by (simp add: example_defs follow_def is_following_def first_def filter_by_def followed_def
      session_add_def same_key_def)

section \<open>Follow, then unfollow\<close>








section \<open>The edge of a new user to itself\<close>

text \<open>On persisted users the query on objects is \<open>is_following\<close>.\<close>

lemma is_following_object_persisted:
  assumes "obj_id a = Some (id_user a')" and "obj_id b = Some (id_user b')"
  shows "is_following_object a b tbl = is_following a' b' tbl"
  using assms by (simp add: is_following_object_def is_following_def filter_by_def followed_def)

text \<open>For an argument without primary key the query finds no row, whatever the table holds.\<close>

lemma is_following_object_no_id:
  "obj_id user = None \<Longrightarrow> \<not> is_following_object self user tbl"
  by (simp add: is_following_object_def first_def)

text \<open>
  Right after \<open>User(email='susan@example.org', ...)\<close> the object has no id, its
  \<open>Follow\<close> is an object in \<open>followed\<close> and not a row, and \<open>is_following\<close> of the object
  and itself is false.
\<close>

theorem is_following_after_construction_counterexample:
  "obj_id (User_init example_hash example_md5 None (insert_roles []) susan_kwargs) = None
   \<and> obj_followed (User_init example_hash example_md5 None (insert_roles []) susan_kwargs)
       = [\<lparr>follower_obj = New_user, followed_obj = New_user\<rparr>]
   \<and> \<not> is_following_object
         (User_init example_hash example_md5 None (insert_roles []) susan_kwargs)
         (User_init example_hash example_md5 None (insert_roles []) susan_kwargs)
         [edge 1 1 0]"
  by (simp add: User_init_def Let_def is_following_object_def first_def)

text \<open>
  C5, amended. The constructor leaves the user without id and with one pending
  \<open>Follow\<close> from the user to itself. Once the caller has added the user to the session
  and committed, under a primary key that has no edge to itself in \<open>follows\<close>, the commit
  succeeds, the table contains the edge from the user to the user, and \<open>is_following\<close>
  of the user and the user is true.
\<close>

theorem User_init_commit_self_edge:
  assumes "\<not> has_edge new_id new_id tbl"
  shows "obj_id (User_init generate_password_hash md5 FLASKY_ADMIN role_tbl kw) = None
         \<and> obj_followed (User_init generate_password_hash md5 FLASKY_ADMIN role_tbl kw)
             = [\<lparr>follower_obj = New_user, followed_obj = New_user\<rparr>]
         \<and> (\<exists>u tbl'. session_commit new_id now
                        (User_init generate_password_hash md5 FLASKY_ADMIN role_tbl kw) tbl
                      = Inr (u, tbl')
               \<and> id_user u = new_id
               \<and> has_edge (id_user u) (id_user u) tbl'
               \<and> is_following u u tbl')"
proof -
  have "session_add \<lparr>follower_id = new_id, followed_id = new_id, timestamp = now\<rparr> tbl
        = Inr (tbl @ [\<lparr>follower_id = new_id, followed_id = new_id, timestamp = now\<rparr>])"
    using assms by (auto simp: session_add_def same_key_def has_edge_def list_ex_iff)
  then show ?thesis
    by (simp add: User_init_def session_commit_def Let_def has_edge_def
        is_following_same_user)
qed

theorem User_init_commit_self_edge_witness:
  "\<not> has_edge 2 2 [edge 1 1 0]
   \<and> session_commit 2 9
       (User_init example_hash example_md5 None (insert_roles []) susan_kwargs) [edge 1 1 0]
       = Inr (susan, [edge 1 1 0, edge 2 2 9])
   \<and> has_edge (id_user susan) (id_user susan) [edge 1 1 0, edge 2 2 9]
   \<and> is_following susan susan [edge 1 1 0, edge 2 2 9]"
proof -
  have h: "\<not> has_edge 2 2 [edge 1 1 0]"
    by (simp add: has_edge_def edge_def)
  have r: "session_commit 2 9
       (User_init example_hash example_md5 None (insert_roles []) susan_kwargs) [edge 1 1 0]
       = Inr (susan, [edge 1 1 0, edge 2 2 9])"
    by (simp add: User_init_def session_commit_def Let_def insert_roles_empty
        susan_kwargs_def example_defs session_add_def same_key_def)
  show ?thesis
    using h r
      User_init_commit_self_edge [OF h, of example_hash example_md5 None "insert_roles []"
        susan_kwargs 9]
    by auto
qed

section \<open>Tokens\<close>

text \<open>
  \<open>generate_reset_token\<close> stores the user's id under the key \<open>rest\<close> and
  \<open>reset_password\<close> reads the key \<open>reset\<close>: the token a user generates is refused for
  that same user, whatever the key, the times and the new password.
\<close>

lemma reset_password_own_token:
  "reset_password generate_password_hash secret_key now self
     (generate_reset_token secret_key issued self expiration) new_password = (False, self)"
  by (simp add: reset_password_def generate_reset_token_def dumps_def loads_def get_def)

text \<open>
  C7. The reset token that john generates, presented one minute later, verifies (its
  signature and expiry are good), and \<open>reset_password\<close> returns \<open>False\<close> and leaves
  john's password hash as it was.
\<close>

theorem reset_password_rejects_valid_token:
  "loads SECRET_KEY 60 (generate_reset_token SECRET_KEY 0 john 3600) = Inr [(''rest'', JInt 1)]
   \<and> reset_password example_hash SECRET_KEY 60 john
        (generate_reset_token SECRET_KEY 0 john 3600) ''dog'' = (False, john)"
  by (simp add: reset_password_own_token)
     (simp add: generate_reset_token_def dumps_def loads_def john_def)

text \<open>
  C8. \<open>confirm\<close> always returns a boolean beside the user. It returns \<open>True\<close> and sets
  \<open>confirmed\<close> exactly when the token is signed with the secret key, is not expired and
  carries the user's id under \<open>confirm\<close>; in every other case it returns \<open>False\<close> and
  the user is unchanged. A confirmation token generated for another user is refused. The
  flag changes only when the result is \<open>True\<close>.
\<close>

theorem confirm_fails_closed:
  "confirm secret_key now u t =
     (if signed_with t = secret_key \<and> \<not> header_exp t < now
         \<and> get (payload t) ''confirm'' = Some (JInt (id_user u))
      then (True, u\<lparr>confirmed := True\<rparr>) else (False, u))
   \<and> (id_user a \<noteq> id_user u \<longrightarrow>
        confirm secret_key now u (generate_confirmation_token secret_key issued a expiration)
          = (False, u))
   \<and> (confirmed (snd (confirm secret_key now u t)) \<noteq> confirmed u \<longrightarrow>
        fst (confirm secret_key now u t))"
  by (simp add: confirm_def loads_def generate_confirmation_token_def dumps_def get_def)

text \<open>
  John's token is refused for susan and accepted for john; a token with an expiry of one
  second is refused two seconds later.
\<close>

theorem confirm_fails_closed_witness:
  "id_user john \<noteq> id_user susan
   \<and> confirm SECRET_KEY 60 susan (generate_confirmation_token SECRET_KEY 0 john 3600)
       = (False, susan)
   \<and> confirm SECRET_KEY 60 john (generate_confirmation_token SECRET_KEY 0 john 3600)
       = (True, john\<lparr>confirmed := True\<rparr>)
   \<and> confirm SECRET_KEY 2 john (generate_confirmation_token SECRET_KEY 0 john 1)
       = (False, john)"
proof -
  have h: "id_user john \<noteq> id_user susan"
    by (simp add: john_def susan_def)
  have t: "generate_confirmation_token SECRET_KEY 0 john 3600
           = \<lparr>header_exp = 3600, payload = [(''confirm'', JInt 1)], signed_with = SECRET_KEY\<rparr>"
    "generate_confirmation_token SECRET_KEY 0 john 1
           = \<lparr>header_exp = 1, payload = [(''confirm'', JInt 1)], signed_with = SECRET_KEY\<rparr>"
    by (simp_all add: generate_confirmation_token_def dumps_def john_def)
  have i: "id_user john = 1"
    by (simp add: john_def)
  show ?thesis
    using h
      confirm_fails_closed [of SECRET_KEY 60 susan
        "generate_confirmation_token SECRET_KEY 0 john 3600" john 0 3600]
      confirm_fails_closed [of SECRET_KEY 60 john
        "generate_confirmation_token SECRET_KEY 0 john 3600" john 0 3600]
      confirm_fails_closed [of SECRET_KEY 2 john
        "generate_confirmation_token SECRET_KEY 0 john 1" john 0 1]
    by (simp add: t i get_def)
qed

text \<open>
  C10. Whenever \<open>change_email\<close> returns \<open>True\<close>, the token carries a string under
  \<open>new_email\<close>, the user's \<open>email\<close> is that string, \<open>avatar_hash\<close> is what it was
  before, and the digest of the new address is in \<open>avatar_has\<close>.
\<close>

theorem change_email_keeps_avatar_hash:
  assumes "change_email md5 secret_key now users u t = Inr (True, u')"
  shows "\<exists>new_email. get (payload t) ''new_email'' = Some (JStr new_email)
           \<and> email u' = Some new_email
           \<and> avatar_hash u' = avatar_hash u
           \<and> avatar_has u' = Some (md5 new_email)"
  using assms
  by (auto simp: change_email_def loads_def
      split: if_splits sum.splits option.splits json.splits)

theorem change_email_keeps_avatar_hash_witness:
  "change_email example_md5 SECRET_KEY 60 [john, susan] john
     (generate_email_change_token SECRET_KEY 0 john ''david@example.net'' 3600)
     = Inr (True, john\<lparr>email := Some ''david@example.net'',
                        avatar_has := Some ''md5(david@example.net)''\<rparr>)
   \<and> avatar_hash (john\<lparr>email := Some ''david@example.net'',
                        avatar_has := Some ''md5(david@example.net)''\<rparr>)
       = Some ''md5(john@example.com)''"
proof -
  have r: "change_email example_md5 SECRET_KEY 60 [john, susan] john
     (generate_email_change_token SECRET_KEY 0 john ''david@example.net'' 3600)
     = Inr (True, john\<lparr>email := Some ''david@example.net'',
                        avatar_has := Some ''md5(david@example.net)''\<rparr>)"
    by (simp add: change_email_def generate_email_change_token_def dumps_def loads_def get_def
        example_defs)
  show ?thesis
    using r change_email_keeps_avatar_hash [OF r]
    by (simp add: john_def)
qed

section \<open>Allow-lists of the renderers\<close>

text \<open>Every tag allowed in a comment is allowed in a post, and \<open>p\<close> is allowed in posts only.\<close>

lemma Comment_tags_subset:
  "set Comment_allowed_tags \<subseteq> set Post_allowed_tags"
  by (simp add: Comment_allowed_tags_def Post_allowed_tags_def)

lemma Comment_tags_proper:
  "''p'' \<in> set Post_allowed_tags \<and> ''p'' \<notin> set Comment_allowed_tags"
  by (simp add: Comment_allowed_tags_def Post_allowed_tags_def)

end
